theory Spec2Isabelle
  imports Main
begin

section \<open>Types of the package (src/types.ts)\<close>

text \<open>
  A JavaScript \<^verbatim>\<open>throw new Error(msg)\<close> is the value \<open>Inl (Error msg)\<close> of a sum type;
  a normal return is \<open>Inr\<close>.
\<close>

datatype error = Error string

text \<open>
  \<^verbatim>\<open>ActionObject<TKey extends string, TPayload>\<close>: a required discriminant \<^verbatim>\<open>key\<close> and an
  optional \<^verbatim>\<open>payload?\<close>. A missing payload reads as \<^verbatim>\<open>undefined\<close> in JavaScript and is
  \<open>None\<close> here.
\<close>

record 'p ActionObject =
  key :: string
  payload :: "'p option"

text \<open>
  \<^verbatim>\<open>ReducerFunc<TState, TAction> = (state, unit) => TState\<close>; the function may throw.
\<close>

type_synonym ('s, 'a) ReducerFunc = "'s \<Rightarrow> 'a \<Rightarrow> error + 's"

section \<open>The host state cell\<close>

text \<open>
  Modelled from the spec: the host reactive-state primitive \<^verbatim>\<open>useState\<close> is imported from
  the UI runtime (\<^verbatim>\<open>react\<close>) and is not part of the repository. The spec describes it as
  a single-slot cell, \<^verbatim>\<open>allocate(initial) -> (get, set)\<close>, whose initializer is read once
  and whose \<^verbatim>\<open>set(updater)\<close> computes the next value from the latest value. A cell holds
  that one value.
\<close>

datatype 's cell = Cell 's

fun get :: "'s cell \<Rightarrow> 's" where
  "get (Cell v) = v"

text \<open>
  Modelled from the spec: \<^verbatim>\<open>useState(initial)\<close> on the hook slot of a component. The slot is
  \<open>None\<close> before the first construction and holds the cell afterwards; the initializer is
  read only when the slot is empty. The result is the current state and the cell that
  \<^verbatim>\<open>setState\<close> writes to.
\<close>

definition useState :: "'s \<Rightarrow> 's cell option \<Rightarrow> 's \<times> 's cell" where
  "useState initial slot =
     (case slot of
        None \<Rightarrow> (initial, Cell initial)
      | Some c \<Rightarrow> (get c, c))"

text \<open>
  The spec's contract of the host says what \<^verbatim>\<open>set\<close> does with the value an updater
  returns. It does not say what \<^verbatim>\<open>set\<close> does when the updater throws, and hosts differ
  there. That part of the host is a parameter of the model: for the error thrown and the
  cell at the call, the outcome that the caller of \<^verbatim>\<open>set\<close> sees and the cell afterwards.
\<close>

type_synonym 's host = "error \<Rightarrow> 's cell \<Rightarrow> (error + unit) \<times> 's cell"

text \<open>
  Modelled from the spec: \<^verbatim>\<open>setState(updater)\<close>. The updater is applied to the latest
  value of the cell and the value it returns is committed; \<^verbatim>\<open>setState\<close> returns no value.
  When the updater throws, the host decides.
\<close>

definition setState ::
  "'s host \<Rightarrow> ('s \<Rightarrow> error + 's) \<Rightarrow> 's cell \<Rightarrow> (error + unit) \<times> 's cell" where
  "setState host updater c =
     (case updater (get c) of
        Inl e \<Rightarrow> host e c
      | Inr next \<Rightarrow> (Inr (), Cell next))"

text \<open>
  Modelled from the spec: the in-memory host of the spec's design notes, which "stores the
  value in a plain in-memory cell and invokes a callback synchronously on set". The updater
  runs under the caller of \<^verbatim>\<open>set\<close>, so its throw reaches that caller, and nothing is stored.
\<close>

definition synchronous_host :: "'s host" where
  "synchronous_host e c = (Inl e, c)"

text \<open>
  Modelled from the spec: a host whose \<^verbatim>\<open>set\<close> "schedules next to become the visible
  value" and may coalesce the updates of one tick. The updater is not run under the caller
  of \<^verbatim>\<open>set\<close>: a throwing updater raises nothing at the call and the committed value is
  as before. What the host does with the throw later, outside the call, is not
  represented.
\<close>

definition scheduling_host :: "'s host" where
  "scheduling_host e c = (Inr (), c)"

section \<open>The hook (useYReducer)\<close>

text \<open>
  \<^verbatim>\<open>DispatchFunc<TAction> = (unit: TAction) => void\<close>. The effect on the cell is explicit:
  a dispatch takes the cell and returns the outcome (a throw or nothing) with the cell
  after the call.
\<close>

type_synonym ('s, 'a) DispatchFunc = "'a \<Rightarrow> 's cell \<Rightarrow> (error + unit) \<times> 's cell"

text \<open>
  \<^verbatim>\<open>
  const [state, setState] = useState<TState>(initialState);
  const dispatch = (action) => { setState((prevState) => reducer(prevState, action)); };
  return [state, dispatch];
  \<close>
  The first argument is the host that \<^verbatim>\<open>useState\<close> is imported from; the third
  component of the result is the hook slot's cell after this call.
\<close>

definition useYReducer ::
  "'s host \<Rightarrow> 's \<Rightarrow> ('s, 'a) ReducerFunc \<Rightarrow> 's cell option
     \<Rightarrow> ('s \<times> ('s, 'a) DispatchFunc) \<times> 's cell" where
  "useYReducer host initialState reducer slot =
     (let (state, c) = useState initialState slot;
          dispatch = (\<lambda>action. setState host (\<lambda>prevState. reducer prevState action))
      in ((state, dispatch), c))"

text \<open>
  A caller that dispatches a list of actions one after the other from the same execution
  context; an uncaught throw ends the sequence.
\<close>

fun dispatch_all :: "('s, 'a) DispatchFunc \<Rightarrow> 'a list \<Rightarrow> 's cell \<Rightarrow> (error + unit) \<times> 's cell" where
  "dispatch_all dispatch [] c = (Inr (), c)"
| "dispatch_all dispatch (a # as) c =
     (case dispatch a c of
        (Inl e, c') \<Rightarrow> (Inl e, c')
      | (Inr u, c') \<Rightarrow> dispatch_all dispatch as c')"

section \<open>The example reducers (README)\<close>

subsection \<open>Counter\<close>

text \<open>
  \<^verbatim>\<open>CounterState = { count: number }\<close>. The counts and payloads of the examples are integers;
  \<^verbatim>\<open>number\<close> is \<open>int\<close> here, and \<^verbatim>\<open>!payload\<close> on an optional number holds when the payload
  is missing or \<open>0\<close>.
\<close>

record CounterState =
  count :: int

definition counterReducer :: "CounterState \<Rightarrow> int ActionObject \<Rightarrow> CounterState" where
  "counterReducer state action =
     (if key action = ''increment'' then
        (case payload action of
           None \<Rightarrow> state
         | Some p \<Rightarrow> if p = 0 then state else \<lparr>count = count state + p\<rparr>)
      else if key action = ''decrement'' then
        (case payload action of
           None \<Rightarrow> state
         | Some p \<Rightarrow> if p = 0 then state else \<lparr>count = count state - p\<rparr>)
      else if key action = ''reset'' then \<lparr>count = 0\<rparr>
      else state)"

text \<open>A reducer that never throws, as a \<open>ReducerFunc\<close>.\<close>

definition returns :: "('s \<Rightarrow> 'a \<Rightarrow> 's) \<Rightarrow> ('s, 'a) ReducerFunc" where
  "returns r = (\<lambda>state action. Inr (r state action))"

subsection \<open>Todo list\<close>

text \<open>
  The payload of a todo action is a string (\<^verbatim>\<open>add\<close>, \<^verbatim>\<open>setFilter\<close>) or a number
  (\<^verbatim>\<open>remove\<close>), read from the action before the \<^verbatim>\<open>switch\<close>. JavaScript does not check
  the declared types at run time, so the values are kept dynamic. \<open>truthy\<close> is
  JavaScript's truthiness on them: \<open>0\<close> and the empty string are falsy. Numbers are
  integers here, as the indices and counts of the examples are; \<^verbatim>\<open>NaN\<close> and fractions
  are not represented.
\<close>

datatype jsval = JNum int | JStr string

fun truthy :: "jsval \<Rightarrow> bool" where
  "truthy (JNum n) = (n \<noteq> 0)"
| "truthy (JStr s) = (s \<noteq> [])"

text \<open>
  \<^verbatim>\<open>TodoState extends ReducerState { todos: string[]; filter: FilterKey }\<close>. The field
  \<^verbatim>\<open>filter\<close> is \<open>filter'\<close> here (the name is taken by the list function); further keys
  that the index signature of \<^verbatim>\<open>ReducerState\<close> allows are the \<open>more\<close> part of the record.
\<close>

record TodoState =
  todos :: "jsval list"
  filter' :: jsval

text \<open>\<^verbatim>\<open>!payload\<close> on an optional payload: missing, \<open>0\<close> or the empty string.\<close>

definition falsy :: "jsval option \<Rightarrow> bool" where
  "falsy p = (case p of None \<Rightarrow> True | Some v \<Rightarrow> \<not> truthy v)"

text \<open>
  \<^verbatim>\<open>
  switch (key) {
    case "add":
      if (!payload) throw new Error("Todo is required");
      return { ...state, todos: [...state.todos, payload] };
    case "remove":
      if (!payload) throw new Error("Index is required");
      return { ...state, todos: state.todos.filter((_, idx) => idx !== payload) };
    case "setFilter":
      if (!payload) throw new Error("Filter key is required");
      return { ...state, filter: payload };
    default:
      return state;
  }
  \<close>
  \<^verbatim>\<open>idx !== payload\<close> is strict inequality: an index differs from every string, and from a
  number when the numbers differ.
\<close>

definition reducer :: "('m TodoState_scheme, jsval ActionObject) ReducerFunc" where
  "reducer state action =
     (if key action = ''add'' then
        (case payload action of
           None \<Rightarrow> Inl (Error ''Todo is required'')
         | Some p \<Rightarrow>
             if \<not> truthy p then Inl (Error ''Todo is required'')
             else Inr (state\<lparr>todos := todos state @ [p]\<rparr>))
      else if key action = ''remove'' then
        (case payload action of
           None \<Rightarrow> Inl (Error ''Index is required'')
         | Some p \<Rightarrow>
             if \<not> truthy p then Inl (Error ''Index is required'')
             else Inr (state\<lparr>todos :=
                    map snd (filter (\<lambda>(idx, _). JNum (int idx) \<noteq> p)
                                    (enumerate 0 (todos state)))\<rparr>))
      else if key action = ''setFilter'' then
        (case payload action of
           None \<Rightarrow> Inl (Error ''Filter key is required'')
         | Some p \<Rightarrow>
             if \<not> truthy p then Inl (Error ''Filter key is required'')
             else Inr (state\<lparr>filter' := p\<rparr>))
      else Inr state)"

section \<open>Basic facts about the cell and the hook\<close>

lemma Cell_get [simp]: "Cell (get c) = c"
  by (cases c) simp

lemma useYReducer_state:
  "fst (fst (useYReducer h i r slot)) = (case slot of None \<Rightarrow> i | Some c \<Rightarrow> get c)"
  by (simp add: useYReducer_def useState_def split: option.split)

lemma useYReducer_cell:
  "snd (useYReducer h i r slot) = (case slot of None \<Rightarrow> Cell i | Some c \<Rightarrow> c)"
  by (simp add: useYReducer_def useState_def split: option.split)

lemma useYReducer_dispatch:
  "snd (fst (useYReducer h i r slot)) a c =
     (case r (get c) a of Inl e \<Rightarrow> h e c | Inr next \<Rightarrow> (Inr (), Cell next))"
  by (simp add: useYReducer_def useState_def setState_def split: option.split)

lemma dispatch_all_returns:
  "dispatch_all (snd (fst (useYReducer h i (returns r) slot))) as c =
     (Inr (), Cell (foldl r (get c) as))"
  by (induction as arbitrary: c) (simp_all add: useYReducer_dispatch returns_def)

lemma counterReducer_default:
  "key a \<notin> {''increment'', ''decrement'', ''reset''} \<Longrightarrow> counterReducer s a = s"
  by (simp add: counterReducer_def)

section \<open>Dispatch order and the fold of the reducer\<close>

text \<open>
  Claim C1. On every host, for every initial state \<open>s0\<close>, every reducer \<open>r\<close> that returns
  normally and every list of actions, dispatching the actions in order through the dispatch function
  returned by \<open>useYReducer\<close> at first construction raises nothing and commits
  \<open>r (\<dots> (r (r s0 a1) a2) \<dots>) an\<close>, the left-to-right fold of the reducer: each
  application sees the value committed by the dispatch before it.
\<close>

theorem useYReducer_dispatch_all_foldl:
  "dispatch_all (snd (fst (useYReducer h s0 (returns r) None))) as
       (snd (useYReducer h s0 (returns r) None))
     = (Inr (), Cell (foldl r s0 as))"
  by (simp add: dispatch_all_returns useYReducer_cell)

section \<open>A throwing reducer\<close>

text \<open>
  Claim C2 as stated fails on a host whose \<^verbatim>\<open>set\<close> schedules the updater: the todo reducer
  throws "Todo is required" on the empty todo, and the dispatch of that action raises
  nothing to its caller.
\<close>

theorem dispatch_throw_not_raised_on_scheduling_host:
  "reducer (get (Cell \<lparr>todos = [], filter' = JStr ''all''\<rparr>))
       \<lparr>key = ''add'', payload = Some (JStr [])\<rparr>
     = Inl (Error ''Todo is required'') \<and>
   fst (snd (fst (useYReducer scheduling_host \<lparr>todos = [], filter' = JStr ''all''\<rparr>
                    reducer None))
          \<lparr>key = ''add'', payload = Some (JStr [])\<rparr>
          (Cell \<lparr>todos = [], filter' = JStr ''all''\<rparr>))
     \<noteq> Inl (Error ''Todo is required'')"
  by (simp add: useYReducer_dispatch scheduling_host_def reducer_def)

text \<open>
  Claim C2, amended. Dispatch has no failure and no error handling of its own. For every
  host, committed state (the value of the cell \<open>c\<close>) and action: when the reducer returns
  a state, dispatch raises nothing and commits that state, so dispatch raises only when
  the reducer does; when the reducer throws \<open>e\<close>, no next state is computed, and what the
  caller of dispatch sees and the cell afterwards are what the host's \<^verbatim>\<open>set\<close> makes of a
  throwing updater. On a host whose \<^verbatim>\<open>set\<close> raises the updater's exception to its caller
  and keeps its value, dispatch throws \<open>e\<close> to its caller and the cell is exactly as
  before.
\<close>

theorem dispatch_forwards_reducer_outcome:
  "(r (get c) a = Inr s' \<longrightarrow> snd (fst (useYReducer h i r slot)) a c = (Inr (), Cell s')) \<and>
   (r (get c) a = Inl e \<longrightarrow> snd (fst (useYReducer h i r slot)) a c = h e c) \<and>
   (r (get c) a = Inl e \<and> h e c = (Inl e, c)
      \<longrightarrow> snd (fst (useYReducer h i r slot)) a c = (Inl e, c))"
  by (simp add: useYReducer_dispatch)

theorem dispatch_forwards_reducer_outcome_witness:
  "reducer (get (Cell \<lparr>todos = [], filter' = JStr ''all''\<rparr>))
       \<lparr>key = ''add'', payload = Some (JStr [])\<rparr>
     = Inl (Error ''Todo is required'') \<and>
   synchronous_host (Error ''Todo is required'') (Cell \<lparr>todos = [], filter' = JStr ''all''\<rparr>)
     = (Inl (Error ''Todo is required''), Cell \<lparr>todos = [], filter' = JStr ''all''\<rparr>) \<and>
   snd (fst (useYReducer synchronous_host \<lparr>todos = [], filter' = JStr ''all''\<rparr> reducer None))
       \<lparr>key = ''add'', payload = Some (JStr [])\<rparr>
       (Cell \<lparr>todos = [], filter' = JStr ''all''\<rparr>)
     = (Inl (Error ''Todo is required''), Cell \<lparr>todos = [], filter' = JStr ''all''\<rparr>) \<and>
   reducer (get (Cell \<lparr>todos = [], filter' = JStr ''all''\<rparr>))
       \<lparr>key = ''add'', payload = Some (JStr ''x'')\<rparr>
     = Inr \<lparr>todos = [JStr ''x''], filter' = JStr ''all''\<rparr> \<and>
   snd (fst (useYReducer synchronous_host \<lparr>todos = [], filter' = JStr ''all''\<rparr> reducer None))
       \<lparr>key = ''add'', payload = Some (JStr ''x'')\<rparr>
       (Cell \<lparr>todos = [], filter' = JStr ''all''\<rparr>)
     = (Inr (), Cell \<lparr>todos = [JStr ''x''], filter' = JStr ''all''\<rparr>)"
proof -
  have thrown: "reducer (get (Cell \<lparr>todos = [], filter' = JStr ''all''\<rparr>))
                  \<lparr>key = ''add'', payload = Some (JStr [])\<rparr>
                = Inl (Error ''Todo is required'')"
    by (simp add: reducer_def)
  have raised: "synchronous_host (Error ''Todo is required'')
                  (Cell \<lparr>todos = [], filter' = JStr ''all''\<rparr>)
                = (Inl (Error ''Todo is required''), Cell \<lparr>todos = [], filter' = JStr ''all''\<rparr>)"
    by (simp add: synchronous_host_def)
  have returned: "reducer (get (Cell \<lparr>todos = [], filter' = JStr ''all''\<rparr>))
                    \<lparr>key = ''add'', payload = Some (JStr ''x'')\<rparr>
                  = Inr \<lparr>todos = [JStr ''x''], filter' = JStr ''all''\<rparr>"
    by (simp add: reducer_def)
  from dispatch_forwards_reducer_outcome
         [of reducer "Cell \<lparr>todos = [], filter' = JStr ''all''\<rparr>"
             "\<lparr>key = ''add'', payload = Some (JStr [])\<rparr>" _ synchronous_host
             "\<lparr>todos = [], filter' = JStr ''all''\<rparr>" None "Error ''Todo is required''"]
       dispatch_forwards_reducer_outcome
         [of reducer "Cell \<lparr>todos = [], filter' = JStr ''all''\<rparr>"
             "\<lparr>key = ''add'', payload = Some (JStr ''x'')\<rparr>"
             "\<lparr>todos = [JStr ''x''], filter' = JStr ''all''\<rparr>" synchronous_host
             "\<lparr>todos = [], filter' = JStr ''all''\<rparr>" None]
       thrown raised returned
  show ?thesis by blast
qed

section \<open>The todo scenario\<close>

text \<open>
  Claim C3, evaluated on the code, on every host. From \<open>{todos: [], filter: "all"}\<close>,
  dispatching \<open>{key: "add", payload: "x"}\<close> commits \<open>{todos: ["x"], filter: "all"}\<close>. On
  \<open>{key: "remove", payload: 0}\<close> the reducer then throws "Index is required", since \<open>0\<close>
  is falsy: it returns no state without the todo, and the dispatch ends as the host ends
  a throwing updater. Dispatching \<open>{key: "setFilter", payload: "active"}\<close> after that
  replaces the filter of whatever the cell then holds. On every host that keeps the value
  when the updater throws, whatever it reports to the caller (\<open>out\<close>: the throw itself on
  a host that runs the updater under the caller, nothing on a host that schedules it), the
  cell holds \<open>{todos: ["x"], filter: "all"}\<close> after the second step and
  \<open>{todos: ["x"], filter: "active"}\<close> after the third. The scenario of the claim expects
  the todo list to be empty after the second step.
\<close>

theorem todo_scenario_remove_zero_throws:
  "(let ((state, dispatch), c0) =
          useYReducer h \<lparr>todos = [], filter' = JStr ''all''\<rparr> reducer None;
        (r1, c1) = dispatch \<lparr>key = ''add'', payload = Some (JStr ''x'')\<rparr> c0;
        (r2, c2) = dispatch \<lparr>key = ''remove'', payload = Some (JNum 0)\<rparr> c1;
        (r3, c3) = dispatch \<lparr>key = ''setFilter'', payload = Some (JStr ''active'')\<rparr> c2
    in (r1, get c1) = (Inr (), \<lparr>todos = [JStr ''x''], filter' = JStr ''all''\<rparr>) \<and>
       reducer (get c1) \<lparr>key = ''remove'', payload = Some (JNum 0)\<rparr>
         = Inl (Error ''Index is required'') \<and>
       (r2, c2) = h (Error ''Index is required'') c1 \<and>
       (r3, get c3) = (Inr (), (get c2)\<lparr>filter' := JStr ''active''\<rparr>)) \<and>
   (let ((state, dispatch), c0) =
          useYReducer (\<lambda>e c. (out e c, c)) \<lparr>todos = [], filter' = JStr ''all''\<rparr> reducer None;
        (r1, c1) = dispatch \<lparr>key = ''add'', payload = Some (JStr ''x'')\<rparr> c0;
        (r2, c2) = dispatch \<lparr>key = ''remove'', payload = Some (JNum 0)\<rparr> c1;
        (r3, c3) = dispatch \<lparr>key = ''setFilter'', payload = Some (JStr ''active'')\<rparr> c2
    in (r1, get c1) = (Inr (), \<lparr>todos = [JStr ''x''], filter' = JStr ''all''\<rparr>) \<and>
       (r2, get c2) =
         (out (Error ''Index is required'') c1,
          \<lparr>todos = [JStr ''x''], filter' = JStr ''all''\<rparr>) \<and>
       (r3, get c3) = (Inr (), \<lparr>todos = [JStr ''x''], filter' = JStr ''active''\<rparr>))"
  by (cases "h (Error ''Index is required'')
               (Cell \<lparr>todos = [JStr ''x''], filter' = JStr ''all''\<rparr>)")
     (simp add: useYReducer_def useState_def setState_def reducer_def)

section \<open>The initial state is read once\<close>

text \<open>
  Claim C4. At first construction (empty slot) the state is the \<open>initialState\<close> argument.
  Once the slot holds a cell, calling \<open>useYReducer\<close> again with any other
  \<open>initialState\<close> returns the committed value of the cell as the state and leaves the
  cell as it is: the state is not reset.
\<close>

theorem useYReducer_initialState_read_once:
  "fst (fst (useYReducer h s0 r None)) = s0 \<and>
   fst (fst (useYReducer h s1 r (Some c))) = get c \<and>
   snd (useYReducer h s1 r (Some c)) = c"
  by (simp add: useYReducer_state useYReducer_cell)

section \<open>The counter\<close>

text \<open>
  Claim C5. With the counter reducer, for every state \<open>s\<close> the action
  \<open>{key: "increment", payload: 0}\<close> returns \<open>s\<close>, and dispatching it on any cell, on
  any host, raises nothing and leaves the cell unchanged.
\<close>

theorem counter_increment_zero_unchanged:
  "counterReducer s \<lparr>key = ''increment'', payload = Some 0\<rparr> = s \<and>
   snd (fst (useYReducer h i (returns counterReducer) slot))
       \<lparr>key = ''increment'', payload = Some 0\<rparr> c = (Inr (), c)"
  by (simp add: useYReducer_dispatch returns_def counterReducer_def)

text \<open>
  Claim C6. Let \<open>handled\<close> be the discriminants a reducer handles, and let the reducer
  return its input state for every action whose \<open>key\<close> is not among them. Then, on
  every host, dispatching an action with an unhandled \<open>key\<close> raises nothing and leaves the committed
  state as it was.
\<close>

theorem dispatch_unhandled_key_unchanged:
  "(\<forall>s a. key a \<notin> handled \<longrightarrow> r s a = Inr s) \<Longrightarrow> key a \<notin> handled \<Longrightarrow>
   snd (fst (useYReducer h i r slot)) a c = (Inr (), c)"
  by (simp add: useYReducer_dispatch)

theorem dispatch_unhandled_key_unchanged_witness:
  "key \<lparr>key = ''multiply'', payload = Some (2::int)\<rparr>
     \<notin> {''increment'', ''decrement'', ''reset''} \<and>
   snd (fst (useYReducer (\<lambda>e c. (Inl e, c)) \<lparr>count = 0\<rparr> (returns counterReducer) None))
       \<lparr>key = ''multiply'', payload = Some 2\<rparr> (Cell \<lparr>count = 5\<rparr>)
     = (Inr (), Cell \<lparr>count = 5\<rparr>)"
proof -
  have conv: "\<forall>s a. key a \<notin> {''increment'', ''decrement'', ''reset''}
                \<longrightarrow> returns counterReducer s a = Inr s"
    by (simp add: returns_def counterReducer_default)
  have k: "key \<lparr>key = ''multiply'', payload = Some (2::int)\<rparr>
             \<notin> {''increment'', ''decrement'', ''reset''}"
    by simp
  from dispatch_unhandled_key_unchanged [OF conv k] k show ?thesis by simp
qed

text \<open>
  Claim C7. From \<open>{count: 0}\<close> with the counter reducer: dispatching
  \<open>{key: "increment", payload: 1}\<close> commits \<open>{count: 1}\<close>, dispatching it again commits
  \<open>{count: 2}\<close>, dispatching \<open>{key: "decrement", payload: 1}\<close> commits \<open>{count: 1}\<close> and
  dispatching \<open>{key: "reset"}\<close> commits \<open>{count: 0}\<close>; no dispatch raises. This holds on
  every host.
\<close>

theorem counter_scenario:
  "(let ((state, dispatch), c0) = useYReducer h \<lparr>count = 0\<rparr> (returns counterReducer) None;
        (r1, c1) = dispatch \<lparr>key = ''increment'', payload = Some 1\<rparr> c0;
        (r2, c2) = dispatch \<lparr>key = ''increment'', payload = Some 1\<rparr> c1;
        (r3, c3) = dispatch \<lparr>key = ''decrement'', payload = Some 1\<rparr> c2;
        (r4, c4) = dispatch \<lparr>key = ''reset'', payload = None\<rparr> c3
    in state = \<lparr>count = 0\<rparr> \<and>
       (r1, get c1) = (Inr (), \<lparr>count = 1\<rparr>) \<and>
       (r2, get c2) = (Inr (), \<lparr>count = 2\<rparr>) \<and>
       (r3, get c3) = (Inr (), \<lparr>count = 1\<rparr>) \<and>
       (r4, get c4) = (Inr (), \<lparr>count = 0\<rparr>))"
  by (simp add: useYReducer_def useState_def setState_def returns_def counterReducer_def)

section \<open>The todo reducer\<close>

text \<open>
  Claim C8. The todo reducer throws for every falsy payload in each handled case:
  "Todo is required" for \<open>add\<close>, "Index is required" for \<open>remove\<close> and
  "Filter key is required" for \<open>setFilter\<close>. The empty string, the index \<open>0\<close> and a
  missing payload are falsy.
\<close>

theorem reducer_falsy_payload_throws:
  "falsy p \<Longrightarrow>
     reducer s \<lparr>key = ''add'', payload = p\<rparr> = Inl (Error ''Todo is required'') \<and>
     reducer s \<lparr>key = ''remove'', payload = p\<rparr> = Inl (Error ''Index is required'') \<and>
     reducer s \<lparr>key = ''setFilter'', payload = p\<rparr> = Inl (Error ''Filter key is required'')"
  by (cases p) (simp_all add: reducer_def falsy_def)

theorem reducer_falsy_payload_throws_witness:
  "falsy (Some (JStr [])) \<and> falsy (Some (JNum 0)) \<and> falsy None \<and>
   reducer \<lparr>todos = [JStr ''x''], filter' = JStr ''all''\<rparr>
       \<lparr>key = ''add'', payload = Some (JStr [])\<rparr> = Inl (Error ''Todo is required'') \<and>
   reducer \<lparr>todos = [JStr ''x''], filter' = JStr ''all''\<rparr>
       \<lparr>key = ''remove'', payload = Some (JNum 0)\<rparr> = Inl (Error ''Index is required'') \<and>
   reducer \<lparr>todos = [JStr ''x''], filter' = JStr ''all''\<rparr>
       \<lparr>key = ''setFilter'', payload = None\<rparr> = Inl (Error ''Filter key is required'')"
proof -
  have f1: "falsy (Some (JStr []))" and f2: "falsy (Some (JNum 0))" and f3: "falsy None"
    by (simp_all add: falsy_def)
  from reducer_falsy_payload_throws
         [OF f1, of "\<lparr>todos = [JStr ''x''], filter' = JStr ''all''\<rparr>"]
       reducer_falsy_payload_throws
         [OF f2, of "\<lparr>todos = [JStr ''x''], filter' = JStr ''all''\<rparr>"]
       reducer_falsy_payload_throws
         [OF f3, of "\<lparr>todos = [JStr ''x''], filter' = JStr ''all''\<rparr>"]
       f1 f2 f3
  show ?thesis by blast
qed

text \<open>
  Claim C9. For every state and every truthy payload the todo reducer returns normally,
  and the \<open>setFilter\<close> case keeps \<open>todos\<close>, the \<open>add\<close> and \<open>remove\<close> cases keep
  \<open>filter\<close>; every further key of the state is kept as well.
\<close>

theorem reducer_frame:
  "truthy p \<Longrightarrow>
     map_sum id (\<lambda>s'. (todos s', TodoState.more s'))
         (reducer s \<lparr>key = ''setFilter'', payload = Some p\<rparr>)
       = Inr (todos s, TodoState.more s) \<and>
     map_sum id (\<lambda>s'. (filter' s', TodoState.more s'))
         (reducer s \<lparr>key = ''add'', payload = Some p\<rparr>)
       = Inr (filter' s, TodoState.more s) \<and>
     map_sum id (\<lambda>s'. (filter' s', TodoState.more s'))
         (reducer s \<lparr>key = ''remove'', payload = Some p\<rparr>)
       = Inr (filter' s, TodoState.more s)"
  by (simp add: reducer_def)

theorem reducer_frame_witness:
  "truthy (JNum 1) \<and>
   map_sum id todos
       (reducer \<lparr>todos = [JStr ''a'', JStr ''b''], filter' = JStr ''all''\<rparr>
                \<lparr>key = ''setFilter'', payload = Some (JNum 1)\<rparr>)
     = Inr [JStr ''a'', JStr ''b''] \<and>
   map_sum id filter'
       (reducer \<lparr>todos = [JStr ''a'', JStr ''b''], filter' = JStr ''all''\<rparr>
                \<lparr>key = ''add'', payload = Some (JNum 1)\<rparr>)
     = Inr (JStr ''all'') \<and>
   reducer \<lparr>todos = [JStr ''a'', JStr ''b''], filter' = JStr ''all''\<rparr>
           \<lparr>key = ''remove'', payload = Some (JNum 1)\<rparr>
     = Inr \<lparr>todos = [JStr ''a''], filter' = JStr ''all''\<rparr>"
proof -
  have t: "truthy (JNum 1)" by simp
  have rm: "reducer \<lparr>todos = [JStr ''a'', JStr ''b''], filter' = JStr ''all''\<rparr>
                    \<lparr>key = ''remove'', payload = Some (JNum 1)\<rparr>
            = Inr \<lparr>todos = [JStr ''a''], filter' = JStr ''all''\<rparr>"
    by (simp add: reducer_def)
  from reducer_frame
         [OF t, of "\<lparr>todos = [JStr ''a'', JStr ''b''], filter' = JStr ''all''\<rparr>"] t rm
  show ?thesis by (auto simp: map_sum_def split: sum.splits)
qed

section \<open>Determinism of dispatch\<close>

text \<open>
  Claim C10. For a fixed reducer on a fixed host, two dispatches of the same action on cells that hold equal
  committed states have equal outcomes and commit equal next states, whatever the
  \<open>initialState\<close> arguments and hook slots of the two calls of \<open>useYReducer\<close> that
  returned the dispatch functions.
\<close>

theorem dispatch_deterministic:
  "get c1 = get c2 \<Longrightarrow>
   snd (fst (useYReducer h i1 r slot1)) a c1 = snd (fst (useYReducer h i2 r slot2)) a c2"
  by (cases c1; cases c2) (simp add: useYReducer_dispatch)

theorem dispatch_deterministic_witness:
  "get (snd (useYReducer (\<lambda>e c. (Inr (), c)) \<lparr>count = 3\<rparr> (returns counterReducer) None))
     = get (Cell \<lparr>count = 3\<rparr>) \<and>
   snd (fst (useYReducer (\<lambda>e c. (Inr (), c)) \<lparr>count = 3\<rparr> (returns counterReducer) None))
       \<lparr>key = ''decrement'', payload = Some 2\<rparr>
       (snd (useYReducer (\<lambda>e c. (Inr (), c)) \<lparr>count = 3\<rparr> (returns counterReducer) None))
     = snd (fst (useYReducer (\<lambda>e c. (Inr (), c)) \<lparr>count = 0\<rparr> (returns counterReducer)
                  (Some (Cell \<lparr>count = 3\<rparr>))))
       \<lparr>key = ''decrement'', payload = Some 2\<rparr> (Cell \<lparr>count = 3\<rparr>)"
proof -
  have h: "get (snd (useYReducer (\<lambda>e c. (Inr (), c)) \<lparr>count = 3\<rparr> (returns counterReducer) None))
             = get (Cell \<lparr>count = 3\<rparr>)"
    by (simp add: useYReducer_cell)
  show ?thesis
    by (rule conjI [OF h dispatch_deterministic [OF h]])
qed

end
